theory Spec2Isabelle
  imports Complex_Main
begin

section \<open>JavaScript numbers\<close>

text \<open>A JavaScript number is an IEEE 754 binary64 value: not-a-number, an infinity, the
  negative zero, or a finite number \<open>Num q\<close> (\<open>Num 0\<close> is the positive zero). The numbers
  the program meets are those with \<open>q\<close> of the form \<open>m * 2 ^ e\<close> with \<open>\<bar>m\<bar> < 2 ^ 53\<close> and
  \<open>- 1074 \<le> e \<le> 971\<close>; the operations below are defined for every \<open>q\<close> and round the
  exact result to the nearest such number, ties to the even one.\<close>

datatype double = NaN | PosInf | NegInf | NegZero | Num real

text \<open>\<open>2 ^ k\<close> for an integer \<open>k\<close>.\<close>

definition pow2 :: "int \<Rightarrow> real" where
  "pow2 k = (if 0 \<le> k then 2 ^ nat k else 1 / 2 ^ nat (- k))"

text \<open>The number of binary digits of a natural number.\<close>

fun bits :: "nat \<Rightarrow> nat" where
  "bits n = (if n = 0 then 0 else Suc (bits (n div 2)))"

declare bits.simps [simp del]

text \<open>The binary exponent of a positive number \<open>a\<close>: the \<open>e\<close> with
  \<open>2 ^ e \<le> a < 2 ^ (e + 1)\<close>. It is read off the integer part of \<open>a\<close> or of \<open>1 / a\<close>, which
  is one too small exactly when \<open>a < 1\<close> is a power of two.\<close>

definition ilog2_near :: "real \<Rightarrow> int" where
  "ilog2_near a =
     (if 1 \<le> a then int (bits (nat \<lfloor>a\<rfloor>)) - 1 else - int (bits (nat \<lfloor>1 / a\<rfloor>)))"

definition ilog2 :: "real \<Rightarrow> int" where
  "ilog2 a = (if pow2 (ilog2_near a + 1) \<le> a then ilog2_near a + 1 else ilog2_near a)"

text \<open>The nearest integer, the even one of two equally near.\<close>

definition round_even :: "real \<Rightarrow> int" where
  "round_even x =
     (if x - of_int \<lfloor>x\<rfloor> < 1 / 2 then \<lfloor>x\<rfloor>
      else if 1 / 2 < x - of_int \<lfloor>x\<rfloor> then \<lfloor>x\<rfloor> + 1
      else if even \<lfloor>x\<rfloor> then \<lfloor>x\<rfloor> else \<lfloor>x\<rfloor> + 1)"

text \<open>A number with binary exponent \<open>e\<close> is rounded to a multiple of \<open>2 ^ (e - 52)\<close>,
  and to a multiple of \<open>2 ^ - 1074\<close> below the normal range. A result of \<open>2 ^ 1024\<close> or more
  is an infinity, a result of zero keeps the sign.\<close>

definition ulp_exponent :: "int \<Rightarrow> int" where
  "ulp_exponent e = max e (- 1022) - 52"

definition round_to :: "int \<Rightarrow> real \<Rightarrow> real" where
  "round_to k a = of_int (round_even (a / pow2 k)) * pow2 k"

definition pack :: "bool \<Rightarrow> real \<Rightarrow> double" where
  "pack neg r =
     (if pow2 1024 \<le> r then (if neg then NegInf else PosInf)
      else if r = 0 then (if neg then NegZero else Num 0)
      else Num (if neg then - r else r))"

definition round64 :: "real \<Rightarrow> double" where
  "round64 q =
     (if q = 0 then Num 0
      else pack (q < 0) (round_to (ulp_exponent (ilog2 \<bar>q\<bar>)) \<bar>q\<bar>))"

subsection \<open>Arithmetic\<close>

fun val :: "double \<Rightarrow> real" where
  "val (Num q) = q"
| "val _ = 0"

fun negative :: "double \<Rightarrow> bool" where
  "negative (Num q) = (q < 0)"
| "negative NegZero = True"
| "negative NegInf = True"
| "negative _ = False"

fun is_inf :: "double \<Rightarrow> bool" where
  "is_inf PosInf = True"
| "is_inf NegInf = True"
| "is_inf _ = False"

fun is_zero :: "double \<Rightarrow> bool" where
  "is_zero NegZero = True"
| "is_zero (Num q) = (q = 0)"
| "is_zero _ = False"

fun fneg :: "double \<Rightarrow> double" where
  "fneg NaN = NaN"
| "fneg PosInf = NegInf"
| "fneg NegInf = PosInf"
| "fneg NegZero = Num 0"
| "fneg (Num q) = (if q = 0 then NegZero else Num (- q))"

text \<open>\<^verbatim>\<open>a + b\<close>, \<^verbatim>\<open>a - b\<close>, \<^verbatim>\<open>a * b\<close>, \<^verbatim>\<open>a / b\<close> and \<^verbatim>\<open>a < b\<close>.\<close>

definition fadd :: "double \<Rightarrow> double \<Rightarrow> double" where
  "fadd a b =
     (if a = NaN \<or> b = NaN then NaN
      else if is_inf a then (if is_inf b \<and> a \<noteq> b then NaN else a)
      else if is_inf b then b
      else if a = NegZero \<and> b = NegZero then NegZero
      else round64 (val a + val b))"

definition fsub :: "double \<Rightarrow> double \<Rightarrow> double" where
  "fsub a b = fadd a (fneg b)"

definition signed :: "bool \<Rightarrow> double \<Rightarrow> double" where
  "signed neg d = (if neg then fneg d else d)"

definition fmul :: "double \<Rightarrow> double \<Rightarrow> double" where
  "fmul a b =
     (if a = NaN \<or> b = NaN then NaN
      else if is_inf a \<or> is_inf b then
        (if is_zero a \<or> is_zero b then NaN else signed (negative a \<noteq> negative b) PosInf)
      else if is_zero a \<or> is_zero b then signed (negative a \<noteq> negative b) (Num 0)
      else round64 (val a * val b))"

definition fdiv :: "double \<Rightarrow> double \<Rightarrow> double" where
  "fdiv a b =
     (if a = NaN \<or> b = NaN then NaN
      else if is_inf a then
        (if is_inf b then NaN else signed (negative a \<noteq> negative b) PosInf)
      else if is_inf b then signed (negative a \<noteq> negative b) (Num 0)
      else if is_zero b then
        (if is_zero a then NaN else signed (negative a \<noteq> negative b) PosInf)
      else if is_zero a then signed (negative a \<noteq> negative b) (Num 0)
      else round64 (val a / val b))"

fun flt :: "double \<Rightarrow> double \<Rightarrow> bool" where
  "flt NaN _ = False"
| "flt _ NaN = False"
| "flt PosInf _ = False"
| "flt _ NegInf = False"
| "flt NegInf _ = True"
| "flt _ PosInf = True"
| "flt a b = (val a < val b)"

text \<open>\<^verbatim>\<open>Math.sqrt\<close>: the square root rounded to the nearest number. The integer square
  root is computed two bits at a time; the root of \<open>t\<close> is nearer to \<open>s + 1\<close> than to \<open>s\<close>
  when \<open>t > (s + 1/2)^ 2 = s * s + s + 1/4\<close>.\<close>

definition sqrt_step :: "nat \<Rightarrow> nat \<Rightarrow> nat" where
  "sqrt_step n r = (if (r + 1) * (r + 1) \<le> n then r + 1 else r)"

function isqrt :: "nat \<Rightarrow> nat" where
  "isqrt n =
     (if n < 4 then (if n = 0 then 0 else 1) else sqrt_step n (2 * isqrt (n div 4)))"
  by pat_completeness auto
termination
  by (relation "measure id") auto

declare isqrt.simps [simp del]

definition round_sqrt :: "real \<Rightarrow> int \<Rightarrow> int" where
  "round_sqrt t s =
     (if t < of_int (s * s + s) + 1 / 4 then s
      else if of_int (s * s + s) + 1 / 4 < t then s + 1
      else if even s then s else s + 1)"

definition sqrt_to :: "int \<Rightarrow> real \<Rightarrow> real" where
  "sqrt_to k q =
     of_int (round_sqrt (q / (pow2 k * pow2 k)) (int (isqrt (nat \<lfloor>q / (pow2 k * pow2 k)\<rfloor>))))
       * pow2 k"

definition sqrt64 :: "real \<Rightarrow> double" where
  "sqrt64 q = pack False (sqrt_to (ulp_exponent (ilog2 q div 2)) q)"

fun fsqrt :: "double \<Rightarrow> double" where
  "fsqrt NaN = NaN"
| "fsqrt PosInf = PosInf"
| "fsqrt NegInf = NaN"
| "fsqrt NegZero = NegZero"
| "fsqrt (Num q) = (if q < 0 then NaN else if q = 0 then Num 0 else sqrt64 q)"

section \<open>The per-frame gesture classifier (processLandmarks)\<close>

text \<open>
  The source is \<^verbatim>\<open>src/components/VisionController.tsx\<close>. \<^verbatim>\<open>Math.pow(a, 2)\<close> is the
  square of \<open>a\<close> rounded to the nearest number (\<open>square\<close>), as \<^verbatim>\<open>a * a\<close> is. A landmark is
  the object \<^verbatim>\<open>{x, y, z}\<close> of the detection library; its fields are named \<open>lm_x\<close>, \<open>lm_y\<close>,
  \<open>lm_z\<close> here, and the fields of the rotation object \<open>rot_x\<close>, \<open>rot_y\<close>, since a record
  field is a global constant.
\<close>

definition square :: "double \<Rightarrow> double" where
  "square a = fmul a a"

record landmark =
  lm_x :: double
  lm_y :: double
  lm_z :: double

text \<open>\<^verbatim>\<open>HandLandmarkerResult\<close>: only the field \<^verbatim>\<open>landmarks\<close> is read, an array of
  landmark arrays (one per detected hand).\<close>

record HandLandmarkerResult =
  landmarks :: "landmark list list"

text \<open>Modelled from the spec: \<^verbatim>\<open>HandGesture\<close> and \<^verbatim>\<open>HandState\<close> are imported from
  \<^verbatim>\<open>../types\<close>, which is not among the sources; the spec gives the output contract as
  \<^verbatim>\<open>{gesture: enum{NONE, OPEN_PALM, CLOSED_FIST}, rotation: {x, y}, pinchDistance, isPresent}\<close>.\<close>

datatype HandGesture = NONE | OPEN_PALM | CLOSED_FIST

record rotation =
  rot_x :: double
  rot_y :: double

record HandState =
  gesture :: HandGesture
  rotation :: rotation
  pinchDistance :: double
  isPresent :: bool

text \<open>Reading a property of \<^verbatim>\<open>undefined\<close> throws a \<^verbatim>\<open>TypeError\<close>.\<close>

datatype error = TypeError

text \<open>\<^verbatim>\<open>xs[i]\<close>: an index out of range yields \<^verbatim>\<open>undefined\<close>, modelled by \<open>None\<close>.\<close>

definition index :: "'a list \<Rightarrow> nat \<Rightarrow> 'a option" where
  "index xs i = (if i < length xs then Some (xs ! i) else None)"

text \<open>The arrow function of \<^verbatim>\<open>tips.map(tip => Math.sqrt(...))\<close>, with \<^verbatim>\<open>wrist\<close> from the
  enclosing scope: it reads \<^verbatim>\<open>tip.x\<close> and \<^verbatim>\<open>wrist.x\<close> first, so it throws when either
  is \<^verbatim>\<open>undefined\<close>.\<close>

fun tip_dist :: "landmark option \<Rightarrow> landmark option \<Rightarrow> double option" where
  "tip_dist (Some wrist) (Some tip) =
     Some (fsqrt (fadd (fadd (square (fsub (lm_x tip) (lm_x wrist)))
                             (square (fsub (lm_y tip) (lm_y wrist))))
                       (square (fsub (lm_z tip) (lm_z wrist)))))"
| "tip_dist _ _ = None"

text \<open>\<^verbatim>\<open>processLandmarks\<close>. The value returned is the argument of the one call of
  \<^verbatim>\<open>onUpdate\<close>, or the exception that leaves the function before that call.\<close>

definition processLandmarks :: "HandLandmarkerResult \<Rightarrow> error + HandState" where
  "processLandmarks result =
    (if length (landmarks result) > 0 then
       (let lms = landmarks result ! 0;
            wrist = index lms 0;
            tips = map (index lms) [8, 12, 16, 20]
        in case those (map (tip_dist wrist) tips) of
             None \<Rightarrow> Inl TypeError
           | Some dists \<Rightarrow>
               (let avgDist = fdiv (foldl fadd (Num 0) dists) (Num (real (length dists)))
                in case (index lms 4, index lms 8, wrist) of
                     (Some thumbTip, Some indexTip, Some wrist') \<Rightarrow>
                       (let pinchDist =
                              fsqrt (fadd (square (fsub (lm_x thumbTip) (lm_x indexTip)))
                                          (square (fsub (lm_y thumbTip) (lm_y indexTip))));
                            gesture' =
                              (if flt avgDist (Num 0.25) then CLOSED_FIST else OPEN_PALM);
                            rotX = fmul (fsub (lm_x wrist') (Num 0.5)) (Num 4);
                            rotY = fmul (fsub (lm_y wrist') (Num 0.5)) (Num 2)
                        in Inr \<lparr>gesture = gesture',
                                rotation = \<lparr>rot_x = rotX, rot_y = rotY\<rparr>,
                                pinchDistance = pinchDist,
                                isPresent = True\<rparr>)
                   | _ \<Rightarrow> Inl TypeError))
     else Inr \<lparr>gesture = NONE,
               rotation = \<lparr>rot_x = Num 0, rot_y = Num 0\<rparr>,
               pinchDistance = Num 1,
               isPresent = False\<rparr>)"

text \<open>The spec's words for the classification (section 4.4, steps 1 and 2): the 3D
  Euclidean distance from the wrist (index 0) to each of the fingertips (indices 8, 12,
  16, 20), and the average of the four, in the program's arithmetic: the four distances
  are added up from 0 in the order of the indices and the sum is divided by 4.\<close>

definition euclid3 :: "landmark \<Rightarrow> landmark \<Rightarrow> double" where
  "euclid3 a b =
     fsqrt (fadd (fadd (square (fsub (lm_x b) (lm_x a))) (square (fsub (lm_y b) (lm_y a))))
                 (square (fsub (lm_z b) (lm_z a))))"

definition spec_avgDist :: "landmark list \<Rightarrow> double" where
  "spec_avgDist lms =
     fdiv (fadd (fadd (fadd (fadd (Num 0) (euclid3 (lms ! 0) (lms ! 8)))
                            (euclid3 (lms ! 0) (lms ! 12)))
                      (euclid3 (lms ! 0) (lms ! 16)))
                (euclid3 (lms ! 0) (lms ! 20)))
          (Num 4)"

text \<open>Concrete hands: the wrist and the four fingertips as given, every other landmark
  at the origin; \<open>hand wrist x\<close> has the four fingertips at the wrist's height and depth,
  at the abscissa \<open>x\<close>.\<close>

definition pt :: "real \<Rightarrow> real \<Rightarrow> real \<Rightarrow> landmark" where
  "pt a b c = \<lparr>lm_x = Num a, lm_y = Num b, lm_z = Num c\<rparr>"

definition hand4 :: "landmark \<Rightarrow> landmark \<Rightarrow> landmark \<Rightarrow> landmark \<Rightarrow> landmark \<Rightarrow> landmark list"
  where
  "hand4 wrist t8 t12 t16 t20 =
     [wrist, pt 0 0 0, pt 0 0 0, pt 0 0 0, pt 0 0 0, pt 0 0 0, pt 0 0 0, pt 0 0 0,
      t8, pt 0 0 0, pt 0 0 0, pt 0 0 0,
      t12, pt 0 0 0, pt 0 0 0, pt 0 0 0,
      t16, pt 0 0 0, pt 0 0 0, pt 0 0 0,
      t20]"

definition hand :: "landmark \<Rightarrow> real \<Rightarrow> landmark list" where
  "hand wrist x =
     hand4 wrist (wrist\<lparr>lm_x := Num x\<rparr>) (wrist\<lparr>lm_x := Num x\<rparr>) (wrist\<lparr>lm_x := Num x\<rparr>)
       (wrist\<lparr>lm_x := Num x\<rparr>)"

section \<open>The component: React state, refs and the browser around them\<close>

text \<open>The user-visible error messages are Chinese string literals in the source; each
  literal is a constructor here (with the text of \<^verbatim>\<open>err.message\<close> where the source
  builds the message from it):
  \<^item> \<open>No_message\<close>: the initial empty string;
  \<^item> \<open>Model_unreachable\<close>: "cannot connect to the Google server to download the model";
  \<^item> \<open>Err_message m\<close>: \<^verbatim>\<open>err.message\<close>, and \<open>Init_failed\<close>: the fallback
    "initialisation failed" of \<^verbatim>\<open>err.message || ...\<close> for a missing or empty message;
  \<^item> \<open>File_invalid m\<close>: "invalid file: " followed by \<^verbatim>\<open>err.message\<close>;
  \<^item> \<open>Camera_unsupported\<close>: "the browser does not support camera access (HTTPS needed)";
  \<^item> \<open>Camera_denied\<close>: "camera permission was denied".\<close>

datatype message =
    No_message
  | Model_unreachable
  | Err_message string
  | Init_failed
  | File_invalid string
  | Camera_unsupported
  | Camera_denied

text \<open>What a promise is rejected with and a \<^verbatim>\<open>catch\<close> receives as \<^verbatim>\<open>err\<close>: \<open>Nullish\<close> is
  \<^verbatim>\<open>undefined\<close> or \<^verbatim>\<open>null\<close>, where reading \<^verbatim>\<open>err.message\<close> throws; \<open>Thrown m\<close> is an object
  whose \<^verbatim>\<open>message\<close> is the string \<open>m\<close>, or is missing when \<open>m\<close> is \<open>None\<close>.\<close>

datatype rejection = Nullish | Thrown "string option"

text \<open>A camera stream is known by its tracks (track identifiers).\<close>

datatype MediaStream = MediaStream (getTracks: "nat list")

text \<open>The \<^verbatim>\<open><video>\<close> element behind \<^verbatim>\<open>videoRef\<close>: the attached stream, the number of
  \<^verbatim>\<open>loadeddata\<close> listeners added by \<^verbatim>\<open>startCamera\<close>, and whether the element still owes a
  \<^verbatim>\<open>loadeddata\<close> event for the stream attached last.\<close>

record video =
  srcObject :: "MediaStream option"
  loadeddata_listeners :: nat
  loadeddata_due :: bool

text \<open>What is in flight: the 3000 ms timer of \<^verbatim>\<open>initVision\<close>, and the promises an
  \<^verbatim>\<open>await\<close> is suspended on. An upload task carries the file whose object URL the
  suspended \<^verbatim>\<open>handleFileUpload\<close> holds in \<^verbatim>\<open>url\<close>.\<close>

datatype task =
    Timer
  | InitVision_wasm
  | InitVision_model
  | Upload_wasm nat
  | Upload_model nat
  | GetUserMedia

text \<open>The state hooks and refs of \<^verbatim>\<open>VisionController\<close> (the first eight fields, with
  their initial values in \<open>init\<close> below), and the environment: whether
  \<^verbatim>\<open>navigator.mediaDevices.getUserMedia\<close> exists, the tasks in flight, the animation-frame
  callbacks requested and not yet run or cancelled, the next callback handle, the number
  of calls of \<^verbatim>\<open>getUserMedia\<close>, the tracks stopped, and the logs of the calls of
  \<^verbatim>\<open>detectForVideo\<close> (engine handle and timestamp) and of \<^verbatim>\<open>onUpdate\<close>.
  An engine handle (\<^verbatim>\<open>HandLandmarker\<close>) is a number.\<close>

record component =
  isStarted :: bool
  status :: string
  errorMessage :: message
  showManualUpload :: bool
  videoRef :: "video option"
  lastVideoTime :: real
  requestRef :: nat
  landmarkerRef :: "nat option"
  mediaDevices :: bool
  pending :: "task list"
  animationFrames :: "nat list"
  nextFrame :: nat
  getUserMedia_calls :: nat
  ended :: "nat set"
  inferences :: "(nat \<times> real) list"
  emitted :: "HandState list"

definition init :: "bool \<Rightarrow> component" where
  "init camera_capable =
     \<lparr>isStarted = False, status = '''', errorMessage = No_message, showManualUpload = False,
      videoRef = Some \<lparr>srcObject = None, loadeddata_listeners = 0, loadeddata_due = False\<rparr>,
      lastVideoTime = - 1, requestRef = 0, landmarkerRef = None,
      mediaDevices = camera_capable, pending = [], animationFrames = [], nextFrame = 1,
      getUserMedia_calls = 0, ended = {}, inferences = [], emitted = []\<rparr>"

subsection \<open>The frame loop\<close>

definition requestAnimationFrame :: "component \<Rightarrow> component" where
  "requestAnimationFrame w =
     w\<lparr>animationFrames := animationFrames w @ [nextFrame w],
       requestRef := nextFrame w,
       nextFrame := nextFrame w + 1\<rparr>"

definition cancelAnimationFrame :: "nat \<Rightarrow> component \<Rightarrow> component" where
  "cancelAnimationFrame handle w = w\<lparr>animationFrames := removeAll handle (animationFrames w)\<rparr>"

text \<open>\<^verbatim>\<open>predictWebcam\<close>. \<open>now\<close> is the value read from \<^verbatim>\<open>videoRef.current.currentTime\<close>
  and \<open>result\<close> the value \<^verbatim>\<open>detectForVideo\<close> returns if it is called. An exception in
  \<^verbatim>\<open>processLandmarks\<close> leaves the callback before \<^verbatim>\<open>requestAnimationFrame\<close>.\<close>

definition predictWebcam :: "real \<Rightarrow> HandLandmarkerResult \<Rightarrow> component \<Rightarrow> component" where
  "predictWebcam now result w =
     (case (landmarkerRef w, videoRef w) of
        (Some landmarker, Some v) \<Rightarrow>
          (if lastVideoTime w \<noteq> now then
             (let w1 = w\<lparr>lastVideoTime := now,
                         inferences := inferences w @ [(landmarker, now)]\<rparr>
              in case processLandmarks result of
                   Inl e \<Rightarrow> w1
                 | Inr s \<Rightarrow> requestAnimationFrame (w1\<lparr>emitted := emitted w1 @ [s]\<rparr>))
           else requestAnimationFrame w)
      | _ \<Rightarrow> w)"

subsection \<open>Teardown\<close>

definition stop :: "nat \<Rightarrow> component \<Rightarrow> component" where
  "stop t w = w\<lparr>ended := insert t (ended w)\<rparr>"

text \<open>The cleanup function returned by the effect.\<close>

definition cleanup :: "component \<Rightarrow> component" where
  "cleanup w =
     (let w1 = cancelAnimationFrame (requestRef w) w
      in case videoRef w1 of
           None \<Rightarrow> w1
         | Some v \<Rightarrow>
             (case srcObject v of
                None \<Rightarrow> w1
              | Some stream \<Rightarrow> fold stop (getTracks stream) w1))"

subsection \<open>Camera acquisition\<close>

text \<open>\<^verbatim>\<open>startCamera\<close> up to its \<^verbatim>\<open>await\<close>, and its two continuations.\<close>

definition startCamera :: "component \<Rightarrow> component" where
  "startCamera w =
     (let w1 = w\<lparr>status := ''requesting_camera''\<rparr>
      in if \<not> mediaDevices w1
         then w1\<lparr>status := ''error'', errorMessage := Camera_unsupported\<rparr>
         else w1\<lparr>getUserMedia_calls := getUserMedia_calls w1 + 1,
                 pending := pending w1 @ [GetUserMedia]\<rparr>)"

definition startCamera_resolved :: "MediaStream \<Rightarrow> component \<Rightarrow> component" where
  "startCamera_resolved stream w =
     (case videoRef w of
        None \<Rightarrow> w
      | Some v \<Rightarrow>
          w\<lparr>videoRef := Some (v\<lparr>srcObject := Some stream,
                                 loadeddata_listeners := loadeddata_listeners v + 1,
                                 loadeddata_due := True\<rparr>)\<rparr>)"

definition startCamera_rejected :: "component \<Rightarrow> component" where
  "startCamera_rejected w = w\<lparr>status := ''error'', errorMessage := Camera_denied\<rparr>"

text \<open>The listener \<^verbatim>\<open>() => { setStatus('ready'); predictWebcam(); }\<close>.\<close>

definition loadeddata_listener :: "real \<Rightarrow> HandLandmarkerResult \<Rightarrow> component \<Rightarrow> component" where
  "loadeddata_listener now result w = predictWebcam now result (w\<lparr>status := ''ready''\<rparr>)"

subsection \<open>Loading the model\<close>

text \<open>\<^verbatim>\<open>initVision\<close> runs once (the start button is rendered only while
  \<^verbatim>\<open>isStarted\<close> is false), so there is at most one timer.\<close>

definition clearTimeout :: "component \<Rightarrow> component" where
  "clearTimeout w = w\<lparr>pending := removeAll Timer (pending w)\<rparr>"

definition settle :: "task \<Rightarrow> component \<Rightarrow> component" where
  "settle t w = w\<lparr>pending := remove1 t (pending w)\<rparr>"

definition initVision :: "component \<Rightarrow> component" where
  "initVision w = w\<lparr>status := ''loading_wasm'', pending := pending w @ [InitVision_wasm]\<rparr>"

definition startExperience :: "component \<Rightarrow> component" where
  "startExperience w = initVision (w\<lparr>isStarted := True, status := ''initializing''\<rparr>)"

definition initVision_wasm_resolved :: "component \<Rightarrow> component" where
  "initVision_wasm_resolved w =
     w\<lparr>status := ''loading_model'', pending := pending w @ [Timer, InitVision_model]\<rparr>"

text \<open>The outer \<^verbatim>\<open>catch\<close> of \<^verbatim>\<open>initVision\<close>: \<^verbatim>\<open>setStatus('error')\<close>, then
  \<^verbatim>\<open>setErrorMessage(err.message || ...)\<close>. When reading \<^verbatim>\<open>err.message\<close> throws, the message is
  not set; the exception ends in the empty \<^verbatim>\<open>catch\<close> of \<^verbatim>\<open>startExperience\<close>.\<close>

definition initVision_wasm_rejected :: "rejection \<Rightarrow> component \<Rightarrow> component" where
  "initVision_wasm_rejected err w =
     (let w1 = w\<lparr>status := ''error''\<rparr>
      in case err of
           Nullish \<Rightarrow> w1
         | Thrown None \<Rightarrow> w1\<lparr>errorMessage := Init_failed\<rparr>
         | Thrown (Some m) \<Rightarrow>
             w1\<lparr>errorMessage := (if m = [] then Init_failed else Err_message m)\<rparr>)"

definition timeout_callback :: "component \<Rightarrow> component" where
  "timeout_callback w = (if landmarkerRef w = None then w\<lparr>showManualUpload := True\<rparr> else w)"

definition initVision_model_resolved :: "nat \<Rightarrow> component \<Rightarrow> component" where
  "initVision_model_resolved landmarker w =
     startCamera ((clearTimeout w)\<lparr>landmarkerRef := Some landmarker\<rparr>)"

definition initVision_model_rejected :: "component \<Rightarrow> component" where
  "initVision_model_rejected w =
     (clearTimeout w)\<lparr>showManualUpload := True, status := ''waiting_for_file'',
                      errorMessage := Model_unreachable\<rparr>"

text \<open>\<^verbatim>\<open>handleFileUpload\<close> and its continuations; both awaits share one \<^verbatim>\<open>catch\<close>:
  \<^verbatim>\<open>setStatus('error')\<close>, then \<^verbatim>\<open>setErrorMessage(... + err.message)\<close>, where a missing
  message is appended as the text \<^verbatim>\<open>undefined\<close> and a read that throws leaves the message
  as it was.\<close>

definition handleFileUpload :: "nat list \<Rightarrow> component \<Rightarrow> component" where
  "handleFileUpload files w =
     (case files of
        [] \<Rightarrow> w
      | file # _ \<Rightarrow>
          w\<lparr>status := ''loading_model_manual'', pending := pending w @ [Upload_wasm file]\<rparr>)"

definition upload_wasm_resolved :: "nat \<Rightarrow> component \<Rightarrow> component" where
  "upload_wasm_resolved file w = w\<lparr>pending := pending w @ [Upload_model file]\<rparr>"

definition upload_rejected :: "rejection \<Rightarrow> component \<Rightarrow> component" where
  "upload_rejected err w =
     (let w1 = w\<lparr>status := ''error''\<rparr>
      in case err of
           Nullish \<Rightarrow> w1
         | Thrown None \<Rightarrow> w1\<lparr>errorMessage := File_invalid ''undefined''\<rparr>
         | Thrown (Some m) \<Rightarrow> w1\<lparr>errorMessage := File_invalid m\<rparr>)"

definition upload_model_resolved :: "nat \<Rightarrow> component \<Rightarrow> component" where
  "upload_model_resolved landmarker w =
     startCamera (w\<lparr>landmarkerRef := Some landmarker, showManualUpload := False\<rparr>)"

subsection \<open>Events\<close>

text \<open>Everything runs on one thread: each event below runs one handler or one
  continuation to its next \<^verbatim>\<open>await\<close>. \<open>Loadeddata\<close> and \<open>Frame\<close> carry what the
  callback reads from the browser: the media time and the detection result.\<close>

datatype event =
    Click_start
  | Wasm_ok
  | Wasm_failed rejection
  | Timeout
  | Model_ok nat
  | Model_failed
  | File_chosen "nat list"
  | Upload_wasm_ok nat
  | Upload_wasm_failed nat rejection
  | Upload_model_ok nat nat
  | Upload_model_failed nat rejection
  | Camera_ok MediaStream
  | Camera_failed
  | Loadeddata real HandLandmarkerResult
  | Frame nat real HandLandmarkerResult

text \<open>When an event can happen: a continuation runs when its task is in flight; the
  start button is rendered while \<^verbatim>\<open>!isStarted\<close>, the file input while
  \<^verbatim>\<open>isStarted && showManualUpload && status !== 'ready'\<close>.\<close>

fun enabled :: "event \<Rightarrow> component \<Rightarrow> bool" where
  "enabled Click_start w = (\<not> isStarted w)"
| "enabled Wasm_ok w = (InitVision_wasm \<in> set (pending w))"
| "enabled (Wasm_failed err) w = (InitVision_wasm \<in> set (pending w))"
| "enabled Timeout w = (Timer \<in> set (pending w))"
| "enabled (Model_ok h) w = (InitVision_model \<in> set (pending w))"
| "enabled Model_failed w = (InitVision_model \<in> set (pending w))"
| "enabled (File_chosen files) w =
     (isStarted w \<and> showManualUpload w \<and> status w \<noteq> ''ready'')"
| "enabled (Upload_wasm_ok f) w = (Upload_wasm f \<in> set (pending w))"
| "enabled (Upload_wasm_failed f err) w = (Upload_wasm f \<in> set (pending w))"
| "enabled (Upload_model_ok f h) w = (Upload_model f \<in> set (pending w))"
| "enabled (Upload_model_failed f err) w = (Upload_model f \<in> set (pending w))"
| "enabled (Camera_ok stream) w = (GetUserMedia \<in> set (pending w))"
| "enabled Camera_failed w = (GetUserMedia \<in> set (pending w))"
| "enabled (Loadeddata now result) w =
     (case videoRef w of
        None \<Rightarrow> False
      | Some v \<Rightarrow> srcObject v \<noteq> None \<and> loadeddata_due v)"
| "enabled (Frame handle now result) w = (handle \<in> set (animationFrames w))"

fun step :: "event \<Rightarrow> component \<Rightarrow> component" where
  "step Click_start w = startExperience w"
| "step Wasm_ok w = initVision_wasm_resolved (settle InitVision_wasm w)"
| "step (Wasm_failed err) w = initVision_wasm_rejected err (settle InitVision_wasm w)"
| "step Timeout w = timeout_callback (settle Timer w)"
| "step (Model_ok h) w = initVision_model_resolved h (settle InitVision_model w)"
| "step Model_failed w = initVision_model_rejected (settle InitVision_model w)"
| "step (File_chosen files) w = handleFileUpload files w"
| "step (Upload_wasm_ok f) w = upload_wasm_resolved f (settle (Upload_wasm f) w)"
| "step (Upload_wasm_failed f err) w = upload_rejected err (settle (Upload_wasm f) w)"
| "step (Upload_model_ok f h) w = upload_model_resolved h (settle (Upload_model f) w)"
| "step (Upload_model_failed f err) w = upload_rejected err (settle (Upload_model f) w)"
| "step (Camera_ok stream) w = startCamera_resolved stream (settle GetUserMedia w)"
| "step Camera_failed w = startCamera_rejected (settle GetUserMedia w)"
| "step (Loadeddata now result) w =
     (case videoRef w of
        None \<Rightarrow> w
      | Some v \<Rightarrow>
          ((loadeddata_listener now result) ^^ loadeddata_listeners v)
            (w\<lparr>videoRef := Some (v\<lparr>loadeddata_due := False\<rparr>)\<rparr>))"
| "step (Frame handle now result) w =
     predictWebcam now result (w\<lparr>animationFrames := remove1 handle (animationFrames w)\<rparr>)"

text \<open>A run of events; \<open>None\<close> when one of them cannot happen in the state reached.\<close>

fun run :: "event list \<Rightarrow> component \<Rightarrow> component option" where
  "run [] w = Some w"
| "run (e # es) w = (if enabled e w then run es (step e w) else None)"

subsection \<open>Notions used in the properties\<close>

text \<open>What an observer sees after each event of a run.\<close>

fun trace :: "(component \<Rightarrow> 'a) \<Rightarrow> event list \<Rightarrow> component \<Rightarrow> 'a list" where
  "trace f [] w = []"
| "trace f (e # es) w = (if enabled e w then f (step e w) # trace f es (step e w) else [])"

text \<open>The automatic attempt up to the point where engine creation is in flight, with
  the timer still armed or already fired.\<close>

definition auto_attempt :: "bool \<Rightarrow> event list" where
  "auto_attempt timer_fired =
     [Click_start, Wasm_ok] @ (if timer_fired then [Timeout] else [])"

text \<open>The automatic attempt is over and never offered the upload: the panel is hidden,
  the start button is gone, and neither the timer nor a promise of \<^verbatim>\<open>initVision\<close> is
  left.\<close>

definition auto_load_done :: "component \<Rightarrow> bool" where
  "auto_load_done w \<longleftrightarrow>
     isStarted w \<and> \<not> showManualUpload w \<and> Timer \<notin> set (pending w)
     \<and> InitVision_wasm \<notin> set (pending w) \<and> InitVision_model \<notin> set (pending w)"

text \<open>The ticks of the frame loop among the events, and the media time a tick reads.\<close>

fun is_Frame :: "event \<Rightarrow> bool" where
  "is_Frame (Frame handle now result) = True"
| "is_Frame _ = False"

fun frame_time :: "event \<Rightarrow> real" where
  "frame_time (Frame handle now result) = now"
| "frame_time _ = 0"



text \<open>The tracks of the stream attached to the video element.\<close>

definition acquired_tracks :: "component \<Rightarrow> nat set" where
  "acquired_tracks w =
     (case videoRef w of
        None \<Rightarrow> {}
      | Some v \<Rightarrow> (case srcObject v of None \<Rightarrow> {} | Some stream \<Rightarrow> set (getTracks stream)))"

text \<open>The run in which the upload wins the race: the timer fires while the automatic
  engine creation is in flight, a file is chosen and loads, the camera is granted and
  the first frame arrives.\<close>

definition upload_wins :: "event list" where
  "upload_wins =
     [Click_start, Wasm_ok, Timeout, File_chosen [7], Upload_wasm_ok 7, Upload_model_ok 7 2,
      Camera_ok (MediaStream [0]), Loadeddata 0 \<lparr>landmarks = []\<rparr>]"

text \<open>A run to the streaming state, followed by ticks at the media times 1 and 0.\<close>

definition revisit :: "event list" where
  "revisit =
     [Click_start, Wasm_ok, Model_ok 1, Camera_ok (MediaStream [0]),
      Loadeddata 0 \<lparr>landmarks = []\<rparr>, Frame 1 1 \<lparr>landmarks = []\<rparr>,
      Frame 2 0 \<lparr>landmarks = []\<rparr>]"

text \<open>The media times at which a tick finds the time changed, given the time recorded
  before the first tick and the times the ticks read.\<close>

fun inferred_times :: "real \<Rightarrow> real list \<Rightarrow> real list" where
  "inferred_times recorded [] = []"
| "inferred_times recorded (t # ts) =
     (if t \<noteq> recorded then t # inferred_times t ts else inferred_times recorded ts)"

text \<open>The run in which both attempts succeed, the upload first: each attaches a stream
  of its own, and the media time of the second stream starts at 0 again.\<close>

definition reattach :: "event list" where
  "reattach =
     upload_wins @
     [Frame 1 1 \<lparr>landmarks = []\<rparr>, Model_ok 1, Camera_ok (MediaStream [1]),
      Loadeddata 0 \<lparr>landmarks = []\<rparr>]"

text \<open>The signal for an absent hand.\<close>

definition absent :: HandState where
  "absent = \<lparr>gesture = NONE, rotation = \<lparr>rot_x = Num 0, rot_y = Num 0\<rparr>,
             pinchDistance = Num 1, isPresent = False\<rparr>"

fun is_File_chosen :: "event \<Rightarrow> bool" where
  "is_File_chosen (File_chosen files) = True"
| "is_File_chosen _ = False"

text \<open>Three states of a camera-capable session, each reached from \<open>init True\<close> (the
  lemmas \<open>both_in_flight_reached\<close>, \<open>awaiting_camera_reached\<close> and \<open>streaming_reached\<close>
  give the runs): both engine creations in flight; the camera requested after the
  automatic load; streaming, with one frame callback requested.\<close>

definition both_in_flight :: component where
  "both_in_flight =
     (init True)\<lparr>isStarted := True, status := ''loading_model_manual'',
                 showManualUpload := True, pending := [InitVision_model, Upload_model 7]\<rparr>"

definition awaiting_camera :: component where
  "awaiting_camera =
     (init True)\<lparr>isStarted := True, status := ''requesting_camera'', landmarkerRef := Some 1,
                 pending := [GetUserMedia], getUserMedia_calls := 1\<rparr>"

definition streaming :: component where
  "streaming =
     awaiting_camera\<lparr>status := ''ready'',
       videoRef := Some \<lparr>srcObject = Some (MediaStream [0]), loadeddata_listeners = 1,
                          loadeddata_due = False\<rparr>,
       lastVideoTime := 0, requestRef := 1, pending := [], animationFrames := [1],
       nextFrame := 2, inferences := [(1, 0)], emitted := [absent]\<rparr>"

text \<open>A closed fist seen at the wrist position (1, 1), and a streaming state in which
  that was the signal emitted last.\<close>

definition fist :: HandState where
  "fist = \<lparr>gesture = CLOSED_FIST, rotation = \<lparr>rot_x = Num 2, rot_y = Num 1\<rparr>,
           pinchDistance = Num 0, isPresent = True\<rparr>"

definition after_fist :: component where
  "after_fist = streaming\<lparr>emitted := [fist]\<rparr>"

text \<open>The run in which the automatic load and then a first file fail, and the events of
  a second file that loads, with the camera granted and the first frame arriving.\<close>

definition first_file_fails :: "event list" where
  "first_file_fails =
     [Click_start, Wasm_ok, Model_failed, File_chosen [7], Upload_wasm_ok 7,
      Upload_model_failed 7 (Thrown (Some ''bad''))]"

definition second_file :: "event list" where
  "second_file =
     [File_chosen [8], Upload_wasm_ok 8, Upload_model_ok 8 2, Camera_ok (MediaStream [0]),
      Loadeddata 0 \<lparr>landmarks = []\<rparr>]"



section \<open>Properties of the classifier\<close>

subsection \<open>Evaluating the arithmetic\<close>

lemma bits_0: "bits 0 = 0"
  by (simp add: bits.simps)

lemma bits_1: "bits (Suc 0) = Suc 0"
  by (simp add: bits.simps)

lemma bits_One: "bits (numeral Num.One) = Suc 0"
  by (simp add: bits.simps)

lemma bits_Bit0: "bits (numeral (Num.Bit0 k)) = Suc (bits (numeral k))"
  by (subst bits.simps) (simp add: numeral_Bit0_div_2)

lemma bits_Bit1: "bits (numeral (Num.Bit1 k)) = Suc (bits (numeral k))"
  by (subst bits.simps) (simp add: numeral_Bit1_div_2)

lemmas arith64 =
  round64_def pack_def round_to_def ulp_exponent_def ilog2_def ilog2_near_def round_even_def
  pow2_def bits_0 bits_1 bits_One bits_Bit0 bits_Bit1 fadd_def fsub_def fmul_def fdiv_def
  signed_def square_def sqrt64_def sqrt_to_def round_sqrt_def sqrt_step_def isqrt.simps

subsection \<open>The signal for a hand\<close>

lemma index_21: "length lms = 21 \<Longrightarrow> i < 21 \<Longrightarrow> index lms i = Some (lms ! i)"
  by (simp add: index_def)

lemma processLandmarks_present:
  assumes "length lms = 21"
  shows "processLandmarks \<lparr>landmarks = lms # rest\<rparr> =
     Inr \<lparr>gesture = (if flt (spec_avgDist lms) (Num 0.25) then CLOSED_FIST else OPEN_PALM),
          rotation = \<lparr>rot_x = fmul (fsub (lm_x (lms ! 0)) (Num 0.5)) (Num 4),
                      rot_y = fmul (fsub (lm_y (lms ! 0)) (Num 0.5)) (Num 2)\<rparr>,
          pinchDistance =
            fsqrt (fadd (square (fsub (lm_x (lms ! 4)) (lm_x (lms ! 8))))
                        (square (fsub (lm_y (lms ! 4)) (lm_y (lms ! 8))))),
          isPresent = True\<rparr>"
  using assms
  by (simp add: processLandmarks_def index_21 spec_avgDist_def euclid3_def)

lemma processLandmarks_absent:
  "processLandmarks \<lparr>landmarks = []\<rparr> =
     Inr \<lparr>gesture = NONE, rotation = \<lparr>rot_x = Num 0, rot_y = Num 0\<rparr>, pinchDistance = Num 1,
          isPresent = False\<rparr>"
  by (simp add: processLandmarks_def)

lemma length_hand4: "length (hand4 w a b c d) = 21"
  by (simp add: hand4_def)

lemma hand4_wrist: "hand4 w a b c d ! 0 = w"
  by (simp add: hand4_def)

lemma length_hand: "length (hand w x) = 21"
  by (simp add: hand_def length_hand4)

lemma hand_wrist: "hand w x ! 0 = w"
  by (simp add: hand_def hand4_wrist)

lemma hand_tips:
  "spec_avgDist (hand (pt 0 0 0) x) =
     fdiv (fadd (fadd (fadd (fadd (Num 0) (euclid3 (pt 0 0 0) (pt x 0 0)))
                            (euclid3 (pt 0 0 0) (pt x 0 0)))
                      (euclid3 (pt 0 0 0) (pt x 0 0)))
                (euclid3 (pt 0 0 0) (pt x 0 0)))
          (Num 4)"
  by (simp add: spec_avgDist_def hand_def hand4_def pt_def)

lemma dist_quarter: "euclid3 (pt 0 0 0) (pt (1 / 4) 0 0) = Num (1 / 4)"
  by (simp add: euclid3_def pt_def arith64)

lemma dist_eighth: "euclid3 (pt 0 0 0) (pt (1 / 8) 0 0) = Num (1 / 8)"
  by (simp add: euclid3_def pt_def arith64)

lemma dist_below_quarter:
  "euclid3 (pt 0 0 0) (pt (9007199254740991 / 36028797018963968) 0 0) =
     Num (9007199254740991 / 36028797018963968)"
  by (simp add: euclid3_def pt_def arith64)

lemma avg_quarter: "spec_avgDist (hand (pt 0 0 0) (1 / 4)) = Num (1 / 4)"
  by (simp add: hand_tips dist_quarter) (simp add: arith64)

lemma avg_eighth: "spec_avgDist (hand (pt 0 0 0) (1 / 8)) = Num (1 / 8)"
  by (simp add: hand_tips dist_eighth) (simp add: arith64)

lemma avg_rounded_up:
  "spec_avgDist
     (hand4 (pt 0 0 0) (pt (1 / 4) 0 0) (pt (1 / 4) 0 0) (pt (1 / 4) 0 0)
        (pt (9007199254740991 / 36028797018963968) 0 0)) = Num (1 / 4)"
  by (simp add: spec_avgDist_def hand4_def dist_quarter dist_below_quarter)
     (simp add: arith64)

text \<open>Claim C1. For a first landmark set of 21 landmarks the classifier emits
  \<open>CLOSED_FIST\<close> exactly when the average it computes of the four 3D Euclidean distances
  from the wrist (index 0) to the fingertips (indices 8, 12, 16, 20) is strictly below
  0.25, and \<open>OPEN_PALM\<close> otherwise; an average of exactly 0.25 gives \<open>OPEN_PALM\<close>.\<close>

theorem classify_threshold:
  assumes "length lms = 21"
  shows "map_sum id gesture (processLandmarks \<lparr>landmarks = lms # rest\<rparr>) =
           Inr (if flt (spec_avgDist lms) (Num 0.25) then CLOSED_FIST else OPEN_PALM)
         \<and> (spec_avgDist lms = Num 0.25 \<longrightarrow>
              map_sum id gesture (processLandmarks \<lparr>landmarks = lms # rest\<rparr>) = Inr OPEN_PALM)"
  by (simp add: processLandmarks_present [OF assms])

theorem classify_threshold_witness:
  "length (hand (pt 0 0 0) (1 / 4)) = 21
   \<and> spec_avgDist (hand (pt 0 0 0) (1 / 4)) = Num 0.25
   \<and> map_sum id gesture (processLandmarks \<lparr>landmarks = [hand (pt 0 0 0) (1 / 4)]\<rparr>) =
       Inr OPEN_PALM
   \<and> spec_avgDist (hand (pt 0 0 0) (1 / 8)) = Num 0.125
   \<and> map_sum id gesture (processLandmarks \<lparr>landmarks = [hand (pt 0 0 0) (1 / 8)]\<rparr>) =
       Inr CLOSED_FIST
   \<and> map_sum id gesture
       (processLandmarks
          \<lparr>landmarks =
             [hand4 (pt 0 0 0) (pt (1 / 4) 0 0) (pt (1 / 4) 0 0) (pt (1 / 4) 0 0)
                (pt (9007199254740991 / 36028797018963968) 0 0)]\<rparr>) =
       Inr OPEN_PALM"
  using classify_threshold [of "hand (pt 0 0 0) (1 / 4)" "[]"]
        classify_threshold [of "hand (pt 0 0 0) (1 / 8)" "[]"]
        classify_threshold [of "hand4 (pt 0 0 0) (pt (1 / 4) 0 0) (pt (1 / 4) 0 0)
          (pt (1 / 4) 0 0) (pt (9007199254740991 / 36028797018963968) 0 0)" "[]"]
  by (simp add: length_hand length_hand4 avg_quarter avg_eighth avg_rounded_up)

lemma rot_values:
  "fmul (fsub (Num (1 / 2)) (Num (1 / 2))) (Num 4) = Num 0"
  "fmul (fsub (Num (1 / 2)) (Num (1 / 2))) (Num 2) = Num 0"
  "fmul (fsub (Num 0) (Num (1 / 2))) (Num 4) = Num (- 2)"
  "fmul (fsub (Num 0) (Num (1 / 2))) (Num 2) = Num (- 1)"
  "fmul (fsub (Num 1) (Num (1 / 2))) (Num 4) = Num 2"
  "fmul (fsub (Num 1) (Num (1 / 2))) (Num 2) = Num 1"
  by (simp_all add: arith64)

text \<open>Claim C7. The rotation emitted is \<^verbatim>\<open>(wrist.x - 0.5) * 4\<close> and
  \<^verbatim>\<open>(wrist.y - 0.5) * 2\<close> as the program computes them, a function of the wrist landmark
  (index 0) alone: a wrist at (0.5, 0.5) gives (0, 0), at (0, 0) gives (-2, -1) and at
  (1, 1) gives (2, 1), whatever the other landmarks are.\<close>

theorem rotation_from_wrist:
  assumes "length lms = 21"
  shows "map_sum id rotation (processLandmarks \<lparr>landmarks = lms # rest\<rparr>) =
           Inr \<lparr>rot_x = fmul (fsub (lm_x (lms ! 0)) (Num 0.5)) (Num 4),
                rot_y = fmul (fsub (lm_y (lms ! 0)) (Num 0.5)) (Num 2)\<rparr>
         \<and> (lm_x (lms ! 0) = Num 0.5 \<and> lm_y (lms ! 0) = Num 0.5 \<longrightarrow>
              map_sum id rotation (processLandmarks \<lparr>landmarks = lms # rest\<rparr>) =
                Inr \<lparr>rot_x = Num 0, rot_y = Num 0\<rparr>)
         \<and> (lm_x (lms ! 0) = Num 0 \<and> lm_y (lms ! 0) = Num 0 \<longrightarrow>
              map_sum id rotation (processLandmarks \<lparr>landmarks = lms # rest\<rparr>) =
                Inr \<lparr>rot_x = Num (- 2), rot_y = Num (- 1)\<rparr>)
         \<and> (lm_x (lms ! 0) = Num 1 \<and> lm_y (lms ! 0) = Num 1 \<longrightarrow>
              map_sum id rotation (processLandmarks \<lparr>landmarks = lms # rest\<rparr>) =
                Inr \<lparr>rot_x = Num 2, rot_y = Num 1\<rparr>)"
  by (simp add: processLandmarks_present [OF assms] rot_values)

theorem rotation_from_wrist_witness:
  "length (hand (pt 0.5 0.5 3) 1) = 21
   \<and> map_sum id rotation (processLandmarks \<lparr>landmarks = [hand (pt 0.5 0.5 3) 1]\<rparr>) =
       Inr \<lparr>rot_x = Num 0, rot_y = Num 0\<rparr>
   \<and> map_sum id rotation (processLandmarks \<lparr>landmarks = [hand (pt 0 0 3) 1]\<rparr>) =
       Inr \<lparr>rot_x = Num (- 2), rot_y = Num (- 1)\<rparr>
   \<and> map_sum id rotation (processLandmarks \<lparr>landmarks = [hand (pt 1 1 3) 1]\<rparr>) =
       Inr \<lparr>rot_x = Num 2, rot_y = Num 1\<rparr>"
  using rotation_from_wrist [of "hand (pt 0.5 0.5 3) 1" "[]"]
        rotation_from_wrist [of "hand (pt 0 0 3) 1" "[]"]
        rotation_from_wrist [of "hand (pt 1 1 3) 1" "[]"]
  by (simp add: length_hand hand_wrist pt_def rot_values)

text \<open>Claim C10. With one or more landmark sets in the frame result, what the classifier
  does is decided by the first set alone: the sets after it can be changed, added or
  removed at will. A signal that is emitted has \<open>isPresent\<close> true exactly when the frame
  result holds at least one landmark set.\<close>

theorem first_landmark_set_only:
  "processLandmarks \<lparr>landmarks = l # rest\<rparr> = processLandmarks \<lparr>landmarks = l # rest'\<rparr>
   \<and> (processLandmarks result = Inr s \<longrightarrow> (isPresent s \<longleftrightarrow> landmarks result \<noteq> []))"
  by (auto simp add: processLandmarks_def Let_def split: option.splits)

lemma open_hand:
  "processLandmarks \<lparr>landmarks = hand (pt 0 0 0) 1 # rest\<rparr> =
     Inr \<lparr>gesture = OPEN_PALM, rotation = \<lparr>rot_x = Num (- 2), rot_y = Num (- 1)\<rparr>,
          pinchDistance = Num 1, isPresent = True\<rparr>"
proof -
  have avg: "spec_avgDist (hand (pt 0 0 0) 1) = Num 1"
    by (simp add: hand_tips) (simp add: euclid3_def pt_def arith64)
  have pinch: "fsqrt (fadd (square (fsub (Num 0) (Num 1))) (square (fsub (Num 0) (Num 0)))) = Num 1"
    by (simp add: arith64)
  have tips: "hand (pt 0 0 0) 1 ! 4 = pt 0 0 0" "hand (pt 0 0 0) 1 ! 8 = pt 1 0 0"
    by (simp_all add: hand_def hand4_def pt_def)
  show ?thesis
    by (simp add: processLandmarks_present length_hand hand_wrist avg tips)
       (simp add: pt_def pinch rot_values)
qed

theorem first_landmark_set_only_witness:
  "processLandmarks \<lparr>landmarks = [hand (pt 0 0 0) 1, hand (pt 1 1 1) 0]\<rparr> =
     processLandmarks \<lparr>landmarks = [hand (pt 0 0 0) 1]\<rparr>
   \<and> processLandmarks \<lparr>landmarks = [hand (pt 0 0 0) 1]\<rparr> =
       Inr \<lparr>gesture = OPEN_PALM, rotation = \<lparr>rot_x = Num (- 2), rot_y = Num (- 1)\<rparr>,
            pinchDistance = Num 1, isPresent = True\<rparr>
   \<and> isPresent \<lparr>gesture = OPEN_PALM, rotation = \<lparr>rot_x = Num (- 2), rot_y = Num (- 1)\<rparr>,
                pinchDistance = Num 1, isPresent = True\<rparr>
   \<and> landmarks \<lparr>landmarks = [hand (pt 0 0 0) 1]\<rparr> \<noteq> []"
  using first_landmark_set_only [of "hand (pt 0 0 0) 1" "[hand (pt 1 1 1) 0]" "[]"
          "\<lparr>landmarks = [hand (pt 0 0 0) 1]\<rparr>"
          "\<lparr>gesture = OPEN_PALM, rotation = \<lparr>rot_x = Num (- 2), rot_y = Num (- 1)\<rparr>,
            pinchDistance = Num 1, isPresent = True\<rparr>"]
  by (simp add: open_hand)

section \<open>Properties of the component\<close>

lemmas handler_defs =
  startExperience_def initVision_def initVision_wasm_resolved_def initVision_wasm_rejected_def
  timeout_callback_def initVision_model_resolved_def initVision_model_rejected_def
  handleFileUpload_def upload_wasm_resolved_def upload_rejected_def upload_model_resolved_def
  startCamera_def startCamera_resolved_def startCamera_rejected_def
  clearTimeout_def settle_def Let_def

lemmas loop_defs = predictWebcam_def requestAnimationFrame_def loadeddata_listener_def

lemmas state_defs = init_def both_in_flight_def awaiting_camera_def streaming_def

subsection \<open>What the frame callback leaves alone\<close>

lemma predictWebcam_frame:
  "status (predictWebcam t r w) = status w"
  "showManualUpload (predictWebcam t r w) = showManualUpload w"
  "isStarted (predictWebcam t r w) = isStarted w"
  "pending (predictWebcam t r w) = pending w"
  "landmarkerRef (predictWebcam t r w) = landmarkerRef w"
  "videoRef (predictWebcam t r w) = videoRef w"
  "errorMessage (predictWebcam t r w) = errorMessage w"
  "mediaDevices (predictWebcam t r w) = mediaDevices w"
  "getUserMedia_calls (predictWebcam t r w) = getUserMedia_calls w"
  "ended (predictWebcam t r w) = ended w"
  by (simp_all add: predictWebcam_def requestAnimationFrame_def Let_def
        split: option.splits sum.splits)

lemma listeners_frame:
  "showManualUpload ((loadeddata_listener t r ^^ n) w) = showManualUpload w"
  "isStarted ((loadeddata_listener t r ^^ n) w) = isStarted w"
  "pending ((loadeddata_listener t r ^^ n) w) = pending w"
  "landmarkerRef ((loadeddata_listener t r ^^ n) w) = landmarkerRef w"
  "videoRef ((loadeddata_listener t r ^^ n) w) = videoRef w"
  "errorMessage ((loadeddata_listener t r ^^ n) w) = errorMessage w"
  "mediaDevices ((loadeddata_listener t r ^^ n) w) = mediaDevices w"
  "getUserMedia_calls ((loadeddata_listener t r ^^ n) w) = getUserMedia_calls w"
  by (induction n) (simp_all add: loadeddata_listener_def predictWebcam_frame)

subsection \<open>Runs\<close>

lemma run_append:
  "run (es @ es') w = (case run es w of None \<Rightarrow> None | Some w1 \<Rightarrow> run es' w1)"
  by (induction es arbitrary: w) simp_all

lemma trace_append:
  "trace f (es @ es') w =
     trace f es w @ (case run es w of None \<Rightarrow> [] | Some w1 \<Rightarrow> trace f es' w1)"
  by (induction es arbitrary: w) simp_all

lemma both_in_flight_reached:
  "run [Click_start, Wasm_ok, Timeout, File_chosen [7], Upload_wasm_ok 7] (init True) =
     Some both_in_flight"
  by (simp add: state_defs handler_defs)

lemma awaiting_camera_reached:
  "run [Click_start, Wasm_ok, Model_ok 1] (init True) = Some awaiting_camera"
  by (simp add: state_defs handler_defs)

lemma streaming_reached:
  "run [Camera_ok (MediaStream [0]), Loadeddata 0 \<lparr>landmarks = []\<rparr>] awaiting_camera =
     Some streaming"
  by (simp add: state_defs handler_defs loop_defs processLandmarks_def absent_def)

subsection \<open>The timeout\<close>

lemma auto_load_done_step:
  assumes "auto_load_done w" and "enabled e w"
  shows "auto_load_done (step e w)"
  using assms
  by (cases e)
     (auto simp add: auto_load_done_def handler_defs predictWebcam_frame listeners_frame
        split: option.splits list.splits rejection.splits dest: notin_set_remove1)

lemma auto_load_done_trace:
  "auto_load_done w \<Longrightarrow> True \<notin> set (trace showManualUpload es w)"
proof (induction es arbitrary: w)
  case Nil
  then show ?case by simp
next
  case (Cons e es)
  show ?case
  proof (cases "enabled e w")
    case True
    with Cons.prems have done': "auto_load_done (step e w)"
      by (rule auto_load_done_step)
    then have "\<not> showManualUpload (step e w)"
      by (simp add: auto_load_done_def)
    with Cons.IH [OF done'] True show ?thesis by simp
  next
    case False
    then show ?thesis by simp
  qed
qed

lemma in_time_state:
  "run [Click_start, Wasm_ok, Model_ok h] (init cap) = Some w \<Longrightarrow> auto_load_done w"
  by (cases cap) (auto simp add: init_def handler_defs auto_load_done_def)

lemma in_time_trace:
  "trace showManualUpload [Click_start, Wasm_ok, Model_ok h] (init cap) = [False, False, False]"
  by (simp add: init_def handler_defs)

lemma in_time_never_shown:
  "True \<notin> set (trace showManualUpload ([Click_start, Wasm_ok, Model_ok h] @ es) (init cap))"
proof (cases "run [Click_start, Wasm_ok, Model_ok h] (init cap)")
  case None
  then show ?thesis
    by (simp only: trace_append in_time_trace) simp
next
  case (Some w1)
  then have "auto_load_done w1" by (rule in_time_state)
  then have "True \<notin> set (trace showManualUpload es w1)" by (rule auto_load_done_trace)
  with Some show ?thesis
    by (simp only: trace_append in_time_trace) simp
qed

text \<open>Claim C4. The timeout only offers the upload; it cancels nothing. When engine
  creation succeeds before the timer fires, the timer is cleared and the upload panel is
  shown at no point of any continuation of the run, and the camera is requested in the
  same step. When engine creation succeeds after the timer fired (the panel is shown
  then), the handle is stored all the same, the camera is requested, and the first frame
  is inferred with that handle.\<close>

theorem timeout_advisory:
  "True \<notin> set (trace showManualUpload ([Click_start, Wasm_ok, Model_ok h] @ es) (init cap))
   \<and> map_option (\<lambda>w. (landmarkerRef w, status w, getUserMedia_calls w, pending w))
        (run [Click_start, Wasm_ok, Model_ok h] (init True)) =
       Some (Some h, ''requesting_camera'', 1, [GetUserMedia])
   \<and> map_option (\<lambda>w. (showManualUpload w, landmarkerRef w, status w, getUserMedia_calls w,
                       pending w))
        (run [Click_start, Wasm_ok, Timeout, Model_ok h] (init True)) =
       Some (True, Some h, ''requesting_camera'', 1, [GetUserMedia])
   \<and> map_option (\<lambda>w. (status w, inferences w))
        (run [Click_start, Wasm_ok, Timeout, Model_ok h, Camera_ok s, Loadeddata t r]
           (init True)) =
       Some (''ready'', if t = - 1 then [] else [(h, t)])"
proof -
  have "map_option (\<lambda>w. (landmarkerRef w, status w, getUserMedia_calls w, pending w))
        (run [Click_start, Wasm_ok, Model_ok h] (init True)) =
       Some (Some h, ''requesting_camera'', 1, [GetUserMedia])"
    by (simp add: init_def handler_defs)
  moreover have "map_option (\<lambda>w. (showManualUpload w, landmarkerRef w, status w,
                       getUserMedia_calls w, pending w))
        (run [Click_start, Wasm_ok, Timeout, Model_ok h] (init True)) =
       Some (True, Some h, ''requesting_camera'', 1, [GetUserMedia])"
    by (simp add: init_def handler_defs)
  moreover have "map_option (\<lambda>w. (status w, inferences w))
        (run [Click_start, Wasm_ok, Timeout, Model_ok h, Camera_ok s, Loadeddata t r]
           (init True)) =
       Some (''ready'', if t = - 1 then [] else [(h, t)])"
    by (simp add: init_def handler_defs loop_defs split: sum.splits)
  ultimately show ?thesis
    using in_time_never_shown by blast
qed

theorem timeout_advisory_witness:
  "run [Click_start, Wasm_ok, Model_ok 1, Camera_ok (MediaStream [0]),
        Loadeddata 0 \<lparr>landmarks = []\<rparr>, Frame 1 1 \<lparr>landmarks = []\<rparr>] (init True) \<noteq> None
   \<and> trace showManualUpload
        [Click_start, Wasm_ok, Model_ok 1, Camera_ok (MediaStream [0]),
         Loadeddata 0 \<lparr>landmarks = []\<rparr>, Frame 1 1 \<lparr>landmarks = []\<rparr>] (init True) =
       [False, False, False, False, False, False]
   \<and> map_option inferences
        (run [Click_start, Wasm_ok, Timeout, Model_ok 1, Camera_ok (MediaStream [0]),
              Loadeddata 0 \<lparr>landmarks = []\<rparr>] (init True)) = Some [(1, 0)]"
  using timeout_advisory [of 1 "[Camera_ok (MediaStream [0]), Loadeddata 0 \<lparr>landmarks = []\<rparr>,
          Frame 1 1 \<lparr>landmarks = []\<rparr>]" True "MediaStream [0]" 0 "\<lparr>landmarks = []\<rparr>"]
  by (simp add: init_def handler_defs loop_defs processLandmarks_def)

subsection \<open>The fallback to a manual upload\<close>

lemma fallback_offered:
  "map_option (\<lambda>w. (status w, errorMessage w, showManualUpload w, pending w))
     (run (auto_attempt fired @ [Model_failed]) (init cap)) =
     Some (''waiting_for_file'', Model_unreachable, True, [])"
  by (cases fired) (simp_all add: auto_attempt_def init_def handler_defs)

lemma fallback_succeeds:
  "trace status
     (auto_attempt fired @ [Model_failed, File_chosen (f # fs), Upload_wasm_ok f,
        Upload_model_ok f h, Camera_ok s, Loadeddata t r]) (init True) =
   [''loading_wasm'', ''loading_model''] @ (if fired then [''loading_model''] else []) @
   [''waiting_for_file'', ''loading_model_manual'', ''loading_model_manual'',
    ''requesting_camera'', ''requesting_camera'', ''ready'']"
  by (cases fired)
     (simp_all add: auto_attempt_def init_def handler_defs loadeddata_listener_def
        predictWebcam_frame)

lemma fallback_engine_creation:
  "map_option (\<lambda>w. (status w, pending w))
     (run (auto_attempt fired @ [Model_failed, File_chosen (f # fs), Upload_wasm_ok f])
        (init cap)) =
   Some (''loading_model_manual'', [Upload_model f])"
  by (cases fired) (simp_all add: auto_attempt_def init_def handler_defs)

lemma fallback_handle:
  "map_option (\<lambda>w. (landmarkerRef w, showManualUpload w, pending w))
     (run (auto_attempt fired @ [Model_failed, File_chosen (f # fs), Upload_wasm_ok f,
        Upload_model_ok f h]) (init True)) =
   Some (Some h, False, [GetUserMedia])"
  by (cases fired) (simp_all add: auto_attempt_def init_def handler_defs)

lemma fallback_fails:
  "map_option (\<lambda>w. (status w, errorMessage w, pending w))
     (run (auto_attempt fired @ [Model_failed, File_chosen (f # fs), Upload_wasm_ok f,
        Upload_model_failed f (Thrown (Some m))]) (init cap)) =
   Some (''error'', File_invalid m, [])"
  by (cases fired) (simp_all add: auto_attempt_def init_def handler_defs)

lemma fallback_no_retry:
  "map_option (\<lambda>w. enabled e w \<and> \<not> is_File_chosen e)
     (run (auto_attempt fired @ [Model_failed, File_chosen (f # fs), Upload_wasm_ok f,
        Upload_model_failed f err]) (init cap)) =
   Some False"
  by (cases fired; cases e)
     (simp_all add: auto_attempt_def init_def handler_defs
        split: rejection.splits option.splits)

lemma fallback_fails_any:
  "map_option (\<lambda>w. (status w, pending w, animationFrames w))
     (run (auto_attempt fired @ [Model_failed, File_chosen (f # fs), Upload_wasm_ok f,
        Upload_model_failed f err]) (init cap)) =
   Some (''error'', [], [])"
  by (cases fired)
     (simp_all add: auto_attempt_def init_def handler_defs split: rejection.splits option.splits)

lemma fallback_again:
  "map_option
     (\<lambda>w. (enabled (File_chosen (g # gs)) w, status (step (File_chosen (g # gs)) w),
           pending (step (File_chosen (g # gs)) w)))
     (run (auto_attempt fired @ [Model_failed, File_chosen (f # fs), Upload_wasm_ok f,
        Upload_model_failed f err]) (init cap)) =
   Some (True, ''loading_model_manual'', [Upload_wasm g])"
  by (cases fired)
     (simp_all add: auto_attempt_def init_def handler_defs split: rejection.splits option.splits)

text \<open>Claim C5, as the code has it. When the automatic engine creation fails, with the
  timer fired or not, the status becomes \<^verbatim>\<open>'waiting_for_file'\<close>, a message is set and the
  upload panel is shown. Choosing a file then runs engine creation for that file; when it
  succeeds and the camera delivers, the status goes through \<^verbatim>\<open>'loading_model_manual'\<close> and
  \<^verbatim>\<open>'requesting_camera'\<close> to \<^verbatim>\<open>'ready'\<close>. When it fails, the status is \<^verbatim>\<open>'error'\<close> with a
  message and nothing left in flight: no continuation retries. The status \<^verbatim>\<open>'error'\<close> is
  not final there: the file input is still rendered, the one event that can follow is
  the user choosing a file, and it starts a new manual attempt.\<close>

theorem manual_fallback:
  "map_option (\<lambda>w. (status w, errorMessage w, showManualUpload w, pending w))
     (run (auto_attempt fired @ [Model_failed]) (init cap)) =
     Some (''waiting_for_file'', Model_unreachable, True, [])
   \<and> trace status
       (auto_attempt fired @ [Model_failed, File_chosen (f # fs), Upload_wasm_ok f,
          Upload_model_ok f h, Camera_ok s, Loadeddata t r]) (init True) =
       [''loading_wasm'', ''loading_model''] @ (if fired then [''loading_model''] else []) @
       [''waiting_for_file'', ''loading_model_manual'', ''loading_model_manual'',
        ''requesting_camera'', ''requesting_camera'', ''ready'']
   \<and> map_option (\<lambda>w. (status w, pending w))
       (run (auto_attempt fired @ [Model_failed, File_chosen (f # fs), Upload_wasm_ok f])
          (init cap)) =
       Some (''loading_model_manual'', [Upload_model f])
   \<and> map_option (\<lambda>w. (landmarkerRef w, showManualUpload w, pending w))
       (run (auto_attempt fired @ [Model_failed, File_chosen (f # fs), Upload_wasm_ok f,
          Upload_model_ok f h]) (init True)) =
       Some (Some h, False, [GetUserMedia])
   \<and> map_option (\<lambda>w. (status w, errorMessage w, pending w))
       (run (auto_attempt fired @ [Model_failed, File_chosen (f # fs), Upload_wasm_ok f,
          Upload_model_failed f (Thrown (Some m))]) (init cap)) =
       Some (''error'', File_invalid m, [])
   \<and> map_option (\<lambda>w. (status w, pending w, animationFrames w))
       (run (auto_attempt fired @ [Model_failed, File_chosen (f # fs), Upload_wasm_ok f,
          Upload_model_failed f err]) (init cap)) =
       Some (''error'', [], [])
   \<and> map_option (\<lambda>w. enabled e w \<and> \<not> is_File_chosen e)
       (run (auto_attempt fired @ [Model_failed, File_chosen (f # fs), Upload_wasm_ok f,
          Upload_model_failed f err]) (init cap)) =
       Some False
   \<and> map_option
       (\<lambda>w. (enabled (File_chosen (g # gs)) w, status (step (File_chosen (g # gs)) w),
             pending (step (File_chosen (g # gs)) w)))
       (run (auto_attempt fired @ [Model_failed, File_chosen (f # fs), Upload_wasm_ok f,
          Upload_model_failed f err]) (init cap)) =
       Some (True, ''loading_model_manual'', [Upload_wasm g])"
  by (intro conjI fallback_offered fallback_succeeds fallback_engine_creation fallback_handle
        fallback_fails fallback_fails_any fallback_no_retry fallback_again)

theorem manual_fallback_witness:
  "map_option status (run [Click_start, Wasm_ok, Timeout, Model_failed] (init True)) =
     Some ''waiting_for_file''
   \<and> map_option status
       (run [Click_start, Wasm_ok, Timeout, Model_failed, File_chosen [7], Upload_wasm_ok 7,
             Upload_model_ok 7 2, Camera_ok (MediaStream [0]), Loadeddata 0 \<lparr>landmarks = []\<rparr>]
          (init True)) = Some ''ready''
   \<and> map_option (\<lambda>w. (status w, errorMessage w))
       (run [Click_start, Wasm_ok, Timeout, Model_failed, File_chosen [7], Upload_wasm_ok 7,
             Upload_model_failed 7 (Thrown (Some ''bad''))] (init True)) =
       Some (''error'', File_invalid ''bad'')
   \<and> map_option (enabled Timeout)
       (run [Click_start, Wasm_ok, Timeout, Model_failed, File_chosen [7], Upload_wasm_ok 7,
             Upload_model_failed 7 (Thrown (Some ''bad''))] (init True)) = Some False
   \<and> map_option (enabled (File_chosen [8]))
       (run [Click_start, Wasm_ok, Timeout, Model_failed, File_chosen [7], Upload_wasm_ok 7,
             Upload_model_failed 7 (Thrown (Some ''bad''))] (init True)) = Some True"
  using manual_fallback [of True True 7 "[]" 2 "MediaStream [0]" 0 "\<lparr>landmarks = []\<rparr>"
          "''bad''" "Thrown (Some ''bad'')" Timeout 8 "[]"]
  by (simp add: auto_attempt_def init_def handler_defs loop_defs processLandmarks_def)

text \<open>Claim C5, as stated, fails in its last part: in \<open>first_file_fails\<close> the manual
  attempt fails and the status is \<^verbatim>\<open>'error'\<close>; the events of \<open>second_file\<close> can follow, and
  after them the status is \<^verbatim>\<open>'ready'\<close>.\<close>

theorem manual_failure_counterexample:
  "map_option status (run first_file_fails (init True)) = Some ''error''
   \<and> map_option status (run (first_file_fails @ second_file) (init True)) = Some ''ready''"
  by (simp add: first_file_fails_def second_file_def init_def handler_defs loop_defs
        processLandmarks_def)

subsection \<open>The race of the two load attempts\<close>

lemma model_ok_effect:
  assumes "mediaDevices w"
  shows "landmarkerRef (step (Model_ok h) w) = Some h"
    and "status (step (Model_ok h) w) = ''requesting_camera''"
    and "getUserMedia_calls (step (Model_ok h) w) = getUserMedia_calls w + 1"
    and "mediaDevices (step (Model_ok h) w)"
    and "t \<noteq> InitVision_model \<Longrightarrow> t \<noteq> Timer \<Longrightarrow> t \<in> set (pending w)
         \<Longrightarrow> t \<in> set (pending (step (Model_ok h) w))"
  using assms by (simp_all add: handler_defs)

lemma upload_model_ok_effect:
  assumes "mediaDevices w"
  shows "landmarkerRef (step (Upload_model_ok f h) w) = Some h"
    and "status (step (Upload_model_ok f h) w) = ''requesting_camera''"
    and "getUserMedia_calls (step (Upload_model_ok f h) w) = getUserMedia_calls w + 1"
    and "mediaDevices (step (Upload_model_ok f h) w)"
    and "t \<noteq> Upload_model f \<Longrightarrow> t \<in> set (pending w)
         \<Longrightarrow> t \<in> set (pending (step (Upload_model_ok f h) w))"
  using assms by (simp_all add: handler_defs)

text \<open>Claim C3, as the code has it. With both engine creations in flight in a
  camera-capable environment, no success is ignored, in either order: each one, whatever
  the status is when it arrives, stores its handle, sets the status to
  \<^verbatim>\<open>'requesting_camera'\<close> and calls \<^verbatim>\<open>getUserMedia\<close>. After both, the handle is the one
  of the later success and the camera has been requested twice.\<close>

theorem late_success_takes_effect:
  assumes "mediaDevices w"
    and "InitVision_model \<in> set (pending w)"
    and "Upload_model f \<in> set (pending w)"
  shows "map_option (\<lambda>w'. (landmarkerRef w', status w', getUserMedia_calls w'))
           (run [Model_ok h1, Upload_model_ok f h2] w) =
           Some (Some h2, ''requesting_camera'', getUserMedia_calls w + 2)
         \<and> map_option (\<lambda>w'. (landmarkerRef w', status w', getUserMedia_calls w'))
             (run [Upload_model_ok f h2, Model_ok h1] w) =
             Some (Some h1, ''requesting_camera'', getUserMedia_calls w + 2)
         \<and> (landmarkerRef (step (Model_ok h1) w), status (step (Model_ok h1) w),
              getUserMedia_calls (step (Model_ok h1) w)) =
             (Some h1, ''requesting_camera'', getUserMedia_calls w + 1)
         \<and> (landmarkerRef (step (Upload_model_ok f h2) w),
              status (step (Upload_model_ok f h2) w),
              getUserMedia_calls (step (Upload_model_ok f h2) w)) =
             (Some h2, ''requesting_camera'', getUserMedia_calls w + 1)"
proof -
  have 1: "enabled (Upload_model_ok f h2) (step (Model_ok h1) w)"
    using model_ok_effect(5) [OF assms(1) _ _ assms(3)] by simp
  have 2: "enabled (Model_ok h1) (step (Upload_model_ok f h2) w)"
    using upload_model_ok_effect(5) [OF assms(1) _ assms(2)] by simp
  show ?thesis
    using assms 1 2
    by (simp add: model_ok_effect upload_model_ok_effect del: step.simps enabled.simps)
       simp
qed

theorem late_success_takes_effect_witness:
  "mediaDevices both_in_flight
   \<and> InitVision_model \<in> set (pending both_in_flight)
   \<and> Upload_model 7 \<in> set (pending both_in_flight)
   \<and> getUserMedia_calls both_in_flight = 0
   \<and> map_option (\<lambda>w'. (landmarkerRef w', status w', getUserMedia_calls w'))
       (run [Model_ok 1, Upload_model_ok 7 2] both_in_flight) =
       Some (Some 2, ''requesting_camera'', 2)
   \<and> map_option (\<lambda>w'. (landmarkerRef w', status w', getUserMedia_calls w'))
       (run [Upload_model_ok 7 2, Model_ok 1] both_in_flight) =
       Some (Some 1, ''requesting_camera'', 2)"
  using late_success_takes_effect [of both_in_flight 7 1 2]
  by (simp add: both_in_flight_def init_def handler_defs)

text \<open>Claim C3, as stated, fails: in the run \<open>upload_wins\<close> the status is \<^verbatim>\<open>'ready'\<close>
  with one call of \<^verbatim>\<open>getUserMedia\<close> and the automatic engine creation still in flight;
  its late success puts the status back to \<^verbatim>\<open>'requesting_camera'\<close> and calls
  \<^verbatim>\<open>getUserMedia\<close> a second time.\<close>

theorem late_success_counterexample:
  "map_option status (run upload_wins (init True)) = Some ''ready''
   \<and> map_option getUserMedia_calls (run upload_wins (init True)) = Some 1
   \<and> map_option landmarkerRef (run upload_wins (init True)) = Some (Some 2)
   \<and> map_option pending (run upload_wins (init True)) = Some [InitVision_model]
   \<and> map_option status (run (upload_wins @ [Model_ok 1]) (init True)) =
       Some ''requesting_camera''
   \<and> map_option getUserMedia_calls (run (upload_wins @ [Model_ok 1]) (init True)) = Some 2"
  by (simp add: upload_wins_def init_def handler_defs loop_defs processLandmarks_def)

subsection \<open>Camera acquisition\<close>









subsection \<open>Teardown\<close>

lemma fold_stop:
  "fold stop ts w = w\<lparr>ended := set ts \<union> ended w\<rparr>"
  by (induction ts arbitrary: w) (simp_all add: stop_def)

lemma cleanup_eq:
  "cleanup w =
     w\<lparr>animationFrames := removeAll (requestRef w) (animationFrames w),
       ended := acquired_tracks w \<union> ended w\<rparr>"
  by (simp add: cleanup_def cancelAnimationFrame_def acquired_tracks_def fold_stop Let_def
        split: option.splits)

lemma acquired_tracks_cleanup: "acquired_tracks (cleanup w) = acquired_tracks w"
  by (simp add: cleanup_eq acquired_tracks_def)

lemma cleanup_twice: "cleanup (cleanup w) = cleanup w"
  by (simp add: cleanup_eq [of "cleanup w"] acquired_tracks_cleanup)
     (simp add: cleanup_eq Un_left_absorb)

text \<open>Claim C8. The cleanup has no failing branch, and running it twice leaves the state
  the first run left: the tracks stopped are those stopped before and the tracks of the
  attached stream, no others. With no stream attached and no frame callback requested it
  changes nothing, as in the initial state.\<close>

theorem cleanup_idempotent:
  "cleanup (cleanup w) = cleanup w
   \<and> ended (cleanup (cleanup w)) = acquired_tracks w \<union> ended w
   \<and> (acquired_tracks w = {} \<and> animationFrames w = [] \<longrightarrow> cleanup w = w)
   \<and> cleanup (init cap) = init cap"
proof -
  have "ended (cleanup w) = acquired_tracks w \<union> ended w"
    by (simp add: cleanup_eq)
  moreover have "acquired_tracks w = {} \<and> animationFrames w = [] \<longrightarrow> cleanup w = w"
    by (simp add: cleanup_eq)
  moreover have "cleanup (init cap) = init cap"
    by (simp add: cleanup_eq acquired_tracks_def init_def)
  ultimately show ?thesis
    by (simp add: cleanup_twice)
qed

theorem cleanup_idempotent_witness:
  "cleanup (cleanup streaming) = cleanup streaming
   \<and> acquired_tracks streaming = {0}
   \<and> ended streaming = {}
   \<and> ended (cleanup (cleanup streaming)) = {0}
   \<and> acquired_tracks awaiting_camera = {} \<and> animationFrames awaiting_camera = []
   \<and> cleanup awaiting_camera = awaiting_camera"
proof -
  have fields: "acquired_tracks streaming = {0}" "ended streaming = {}"
    "acquired_tracks awaiting_camera = {}" "animationFrames awaiting_camera = []"
    by (simp_all add: state_defs acquired_tracks_def)
  from cleanup_idempotent [of streaming True]
  have twice: "cleanup (cleanup streaming) = cleanup streaming"
    and stopped: "ended (cleanup (cleanup streaming)) = acquired_tracks streaming \<union> ended streaming"
    by blast+
  from twice stopped have once: "ended (cleanup streaming) = {0}"
    by (simp add: fields)
  from cleanup_idempotent [of awaiting_camera True]
  have "cleanup awaiting_camera = awaiting_camera"
    by (simp add: fields)
  with twice once show ?thesis
    by (simp add: fields)
qed

subsection \<open>The frame loop\<close>

lemma predictWebcam_tick:
  assumes "landmarkerRef w = Some h" and "videoRef w = Some v"
  shows "inferences (predictWebcam t r w) =
           inferences w @ (if t \<noteq> lastVideoTime w then [(h, t)] else [])"
    and "lastVideoTime (predictWebcam t r w) = t"
  using assms
  by (auto simp add: predictWebcam_def requestAnimationFrame_def Let_def split: sum.splits)

lemma frames_inferences:
  assumes "run es w = Some w'" and "list_all is_Frame es"
    and "landmarkerRef w = Some h" and "videoRef w = Some v"
  shows "inferences w' =
           inferences w @ map (Pair h) (inferred_times (lastVideoTime w) (map frame_time es))"
  using assms
proof (induction es arbitrary: w)
  case Nil
  then show ?case by simp
next
  case (Cons e es)
  from Cons.prems(2) obtain i t r where e: "e = Frame i t r"
    by (cases e) simp_all
  let ?w1 = "predictWebcam t r (w\<lparr>animationFrames := remove1 i (animationFrames w)\<rparr>)"
  from Cons.prems(1) have rest: "run es ?w1 = Some w'"
    by (simp add: e split: if_splits)
  have refs: "landmarkerRef ?w1 = Some h" "videoRef ?w1 = Some v"
    using Cons.prems(3,4) by (simp_all add: predictWebcam_frame)
  have inf: "inferences ?w1 = inferences w @ (if t \<noteq> lastVideoTime w then [(h, t)] else [])"
    and last: "lastVideoTime ?w1 = t"
    using Cons.prems(3,4) by (simp_all add: predictWebcam_tick [where h = h and v = v])
  from Cons.prems(2) have "list_all is_Frame es" by simp
  from Cons.IH [OF rest this refs]
  show ?case
    by (simp add: inf last e)
qed

lemma inferred_times_sorted:
  "sorted (recorded # ts) \<Longrightarrow>
     distinct (inferred_times recorded ts)
     \<and> set (inferred_times recorded ts) = set ts - {recorded}"
proof (induction ts arbitrary: recorded)
  case Nil
  then show ?case by simp
next
  case (Cons t ts)
  show ?case
  proof (cases "t = recorded")
    case True
    with Cons.prems have "sorted (recorded # ts)" by simp
    from Cons.IH [OF this] True show ?thesis by auto
  next
    case False
    from Cons.prems have s: "sorted (t # ts)" and le: "recorded \<le> t" by simp_all
    from s have "\<forall>u\<in>set ts. t \<le> u" by simp
    with le False have "recorded \<notin> set ts" by auto
    with Cons.IH [OF s] False show ?thesis by auto
  qed
qed

text \<open>Claim C6, as the code has it. With the engine handle and the video element
  present: a tick that reads the media time recorded last infers nothing, emits nothing
  and requests the next callback. Over a run of ticks, inference is invoked at exactly
  the ticks whose media time differs from the one recorded just before, so once for each
  stretch of equal consecutive times. When the times read never decrease, starting from
  the recorded one, that is once for each distinct time other than the recorded one.\<close>

theorem frame_loop_inferences:
  assumes "run es w \<noteq> None" and "list_all is_Frame es"
    and "landmarkerRef w = Some h" and "videoRef w = Some v"
  shows "map_option inferences (run es w) =
           Some (inferences w
                 @ map (Pair h) (inferred_times (lastVideoTime w) (map frame_time es)))
         \<and> (sorted (lastVideoTime w # map frame_time es) \<longrightarrow>
              distinct (inferred_times (lastVideoTime w) (map frame_time es))
              \<and> set (inferred_times (lastVideoTime w) (map frame_time es)) =
                  set (map frame_time es) - {lastVideoTime w})
         \<and> (enabled (Frame i t r) w \<and> t = lastVideoTime w \<longrightarrow>
              inferences (step (Frame i t r) w) = inferences w
              \<and> emitted (step (Frame i t r) w) = emitted w
              \<and> requestRef (step (Frame i t r) w)
                  \<in> set (animationFrames (step (Frame i t r) w)))"
proof -
  from assms(1) obtain w' where w': "run es w = Some w'"
    by blast
  have "enabled (Frame i t r) w \<and> t = lastVideoTime w \<longrightarrow>
          inferences (step (Frame i t r) w) = inferences w
          \<and> emitted (step (Frame i t r) w) = emitted w
          \<and> requestRef (step (Frame i t r) w) \<in> set (animationFrames (step (Frame i t r) w))"
    using assms(3,4) by (simp add: predictWebcam_def requestAnimationFrame_def)
  with frames_inferences [OF w' assms(2,3,4)] inferred_times_sorted w' show ?thesis
    by simp
qed

theorem frame_loop_inferences_witness:
  "run [Frame 1 0 \<lparr>landmarks = []\<rparr>, Frame 2 1 \<lparr>landmarks = []\<rparr>, Frame 3 1 \<lparr>landmarks = []\<rparr>,
        Frame 4 2 \<lparr>landmarks = []\<rparr>] streaming \<noteq> None
   \<and> landmarkerRef streaming = Some 1
   \<and> lastVideoTime streaming = 0
   \<and> inferences streaming = [(1, 0)]
   \<and> map_option inferences
       (run [Frame 1 0 \<lparr>landmarks = []\<rparr>, Frame 2 1 \<lparr>landmarks = []\<rparr>,
             Frame 3 1 \<lparr>landmarks = []\<rparr>, Frame 4 2 \<lparr>landmarks = []\<rparr>] streaming) =
       Some [(1, 0), (1, 1), (1, 2)]
   \<and> enabled (Frame 1 0 \<lparr>landmarks = []\<rparr>) streaming
   \<and> requestRef (step (Frame 1 0 \<lparr>landmarks = []\<rparr>) streaming) = 2
   \<and> animationFrames (step (Frame 1 0 \<lparr>landmarks = []\<rparr>) streaming) = [2]"
  using frame_loop_inferences [of "[Frame 1 0 \<lparr>landmarks = []\<rparr>, Frame 2 1 \<lparr>landmarks = []\<rparr>,
          Frame 3 1 \<lparr>landmarks = []\<rparr>, Frame 4 2 \<lparr>landmarks = []\<rparr>]" streaming 1
          "\<lparr>srcObject = Some (MediaStream [0]), loadeddata_listeners = 1,
            loadeddata_due = False\<rparr>" 1 0 "\<lparr>landmarks = []\<rparr>"]
  by (simp add: state_defs loop_defs processLandmarks_def)

text \<open>Claim C6, as stated, fails. In \<open>revisit\<close> the ticks read the media times 0, 1, 0
  and inference runs three times, twice for the time 0. In \<open>reattach\<close> the second
  stream starts at the media time 0 again, which the first stream had at its first
  frame: inference runs for the time 0 once with each engine handle.\<close>

theorem frame_loop_counterexample:
  "map_option inferences (run revisit (init True)) = Some [(1, 0), (1, 1), (1, 0)]
   \<and> map_option inferences (run reattach (init True)) = Some [(2, 0), (2, 1), (1, 0)]"
  by (simp add: revisit_def reattach_def upload_wins_def init_def handler_defs loop_defs
        processLandmarks_def)

subsection \<open>The absent hand\<close>

text \<open>Claim C2. For a frame result with no landmark set the classifier returns the
  fixed signal \<open>absent\<close>: gesture \<open>NONE\<close>, rotation (0, 0), pinch distance 1, not
  present. It is a function of the frame result alone; in the frame loop, whatever the
  state of the component and whatever was emitted before, the signal emitted for such a
  frame is \<open>absent\<close>.\<close>

theorem empty_frame_sentinel:
  "processLandmarks \<lparr>landmarks = []\<rparr> = Inr absent
   \<and> absent = \<lparr>gesture = NONE, rotation = \<lparr>rot_x = Num 0, rot_y = Num 0\<rparr>,
                pinchDistance = Num 1, isPresent = False\<rparr>
   \<and> (landmarkerRef w = Some h \<and> videoRef w = Some v \<and> lastVideoTime w \<noteq> now \<longrightarrow>
        emitted (predictWebcam now \<lparr>landmarks = []\<rparr> w) = emitted w @ [absent])"
  by (simp add: processLandmarks_absent absent_def predictWebcam_def requestAnimationFrame_def)

theorem empty_frame_sentinel_witness:
  "landmarkerRef after_fist = Some 1
   \<and> videoRef after_fist \<noteq> None
   \<and> lastVideoTime after_fist \<noteq> 1
   \<and> emitted after_fist = [fist]
   \<and> emitted (predictWebcam 1 \<lparr>landmarks = []\<rparr> after_fist) = [fist, absent]"
  using empty_frame_sentinel [of after_fist 1
          "\<lparr>srcObject = Some (MediaStream [0]), loadeddata_listeners = 1,
            loadeddata_due = False\<rparr>" 1]
  by (simp add: after_fist_def state_defs)

end
